theory Spec2Isabelle
  imports Complex_Main
begin

section \<open>Strings\<close>

text \<open>
  A Python \<^verbatim>\<open>str\<close> is modelled as a \<^typ>\<open>string\<close>, so the code points are
  those below 256. On that range \<^verbatim>\<open>str.isspace\<close> holds for the code points
  9 to 13, 28 to 32, 133 and 160, and \<^verbatim>\<open>str.strip()\<close> removes the longest
  run of such characters at each end.
\<close>

definition isspace :: "char \<Rightarrow> bool" where
  "isspace c =
     (let n = (of_char c :: nat)
      in (9 \<le> n \<and> n \<le> 13) \<or> (28 \<le> n \<and> n \<le> 32) \<or> n = 133 \<or> n = 160)"

definition strip :: "string \<Rightarrow> string" where
  "strip s = rev (dropWhile isspace (rev (dropWhile isspace s)))"

definition startswith :: "string \<Rightarrow> string \<Rightarrow> bool" where
  "startswith s p = (take (length p) s = p)"

section \<open>Data model\<close>

text \<open>
  A Python \<^verbatim>\<open>float\<close>: a finite value (carried as the rational it denotes), an
  infinity or a NaN. The server stores the speed and passes it on; it does no
  arithmetic on it.
\<close>

datatype pyfloat = Finite rat | PosInf | NegInf | NaN

text \<open>
  What \<^verbatim>\<open>subprocess.run(cmd, capture_output=True, timeout=10)\<close> does: it returns a
  completed process with a return code, or raises \<^verbatim>\<open>FileNotFoundError\<close>, or
  \<^verbatim>\<open>subprocess.TimeoutExpired\<close>, or some other exception (a
  \<^verbatim>\<open>PermissionError\<close> for a file on the search path that may not be executed, any
  other \<^verbatim>\<open>OSError\<close>).
\<close>

datatype proc_outcome = Exited int | FileNotFoundError | TimeoutExpired | OtherError

text \<open>The calls the server makes to its collaborators, in the order it makes them.\<close>

datatype call =
    Create string string pyfloat
  | Run "string list" nat

text \<open>
  The collaborators as they answer while one line is handled. \<open>voices\<close> is the key set of
  \<^verbatim>\<open>kokoro.voices\<close>; \<open>py_float\<close> is the built-in \<^verbatim>\<open>float\<close> (\<open>None\<close> for
  \<^verbatim>\<open>ValueError\<close>); \<open>create\<close> is \<^verbatim>\<open>kokoro.create\<close> followed by the conversion to
  an array (\<open>None\<close> when either raises); \<open>mktemp\<close> is the name of the file that
  \<^verbatim>\<open>tempfile.NamedTemporaryFile(suffix=".wav", delete=False)\<close> creates (\<open>None\<close> when it
  raises); \<open>sf_write\<close> tells whether \<^verbatim>\<open>sf.write\<close> returns; \<open>subprocess_run\<close> is the
  outcome of running a command with a timeout; \<open>os_unlink\<close> tells whether
  \<^verbatim>\<open>os.unlink\<close> returns (it removes the file) or raises (the file is left as it is).
\<close>

record 'a world =
  voices :: "string set"
  py_float :: "string \<Rightarrow> pyfloat option"
  create :: "string \<Rightarrow> string \<Rightarrow> pyfloat \<Rightarrow> 'a option"
  mktemp :: "string option"
  sf_write :: "string \<Rightarrow> 'a \<Rightarrow> bool"
  subprocess_run :: "string list \<Rightarrow> nat \<Rightarrow> proc_outcome"
  os_unlink :: "string \<Rightarrow> bool"

text \<open>
  The state the server acts on: the fields of the \<^verbatim>\<open>KokoroTTSServer\<close> object
  (\<open>voice\<close>, \<open>speed\<close>, \<open>running\<close>), the paths of the files that exist, the lines
  printed to standard output, and the calls made so far.
\<close>

record state =
  voice :: string
  speed :: pyfloat
  running :: bool
  files :: "string set"
  stdout :: "string list"
  calls :: "call list"

definition default_voice :: string where
  "default_voice = ''af_bella''"

text \<open>\<^verbatim>\<open>KokoroTTSServer.__init__\<close>, on a file system \<open>fs\<close>.\<close>

definition init :: "string set \<Rightarrow> state" where
  "init fs = \<lparr>voice = default_voice, speed = Finite 1, running = True,
              files = fs, stdout = [], calls = []\<rparr>"

section \<open>\<^verbatim>\<open>KokoroTTSServer.speak\<close>\<close>

definition audio_players :: "string \<Rightarrow> (string list \<times> string) list" where
  "audio_players tmp_path =
     [([''pw-play'', tmp_path], ''pw-play''),
      ([''paplay'', tmp_path], ''paplay''),
      ([''aplay'', ''-q'', tmp_path], ''aplay'')]"

text \<open>
  The loop over the players. \<open>result\<close> is the variable of that name: \<open>None\<close>, or the
  return code of the last process that completed. The value is \<open>Some result\<close> when the
  loop ends (by exhaustion or by \<^verbatim>\<open>break\<close>), and \<open>None\<close> when an exception that the
  inner handler does not catch leaves it; the list holds the commands that were run.
\<close>

fun try_players ::
  "(string list \<Rightarrow> nat \<Rightarrow> proc_outcome) \<Rightarrow> (string list \<times> string) list \<Rightarrow> int option
     \<Rightarrow> int option option \<times> call list" where
  "try_players sub [] result = (Some result, [])"
| "try_players sub ((cmd, name) # rest) result =
     (case sub cmd 10 of
        Exited rc \<Rightarrow>
          if rc = 0 then (Some (Some rc), [Run cmd 10])
          else (case try_players sub rest (Some rc) of (r, tr) \<Rightarrow> (r, Run cmd 10 # tr))
      | FileNotFoundError \<Rightarrow>
          (case try_players sub rest result of (r, tr) \<Rightarrow> (r, Run cmd 10 # tr))
      | TimeoutExpired \<Rightarrow>
          (case try_players sub rest result of (r, tr) \<Rightarrow> (r, Run cmd 10 # tr))
      | OtherError \<Rightarrow> (None, [Run cmd 10]))"

text \<open>
  \<^verbatim>\<open>speak\<close> returns a boolean and never raises: its outer handler catches every
  \<^verbatim>\<open>Exception\<close> and returns \<^verbatim>\<open>False\<close>. After the loop the file is unlinked,
  and an exception of \<^verbatim>\<open>os.unlink\<close> goes to the outer handler too; then
  \<^verbatim>\<open>result.returncode\<close> is read, which raises \<^verbatim>\<open>AttributeError\<close> when
  \<open>result\<close> is still \<^verbatim>\<open>None\<close>.
\<close>

definition speak :: "'a world \<Rightarrow> state \<Rightarrow> string \<Rightarrow> bool \<times> state" where
  "speak w s text =
     (let s1 = s\<lparr>calls := calls s @ [Create text (voice s) (speed s)]\<rparr> in
      case create w text (voice s) (speed s) of
        None \<Rightarrow> (False, s1)
      | Some samples \<Rightarrow>
          (case mktemp w of
             None \<Rightarrow> (False, s1)
           | Some tmp_path \<Rightarrow>
               (let s2 = s1\<lparr>files := insert tmp_path (files s1)\<rparr> in
                if \<not> sf_write w tmp_path samples then (False, s2)
                else
                  (case try_players (subprocess_run w) (audio_players tmp_path) None of
                     (None, tr) \<Rightarrow> (False, s2\<lparr>calls := calls s2 @ tr\<rparr>)
                   | (Some result, tr) \<Rightarrow>
                       if \<not> os_unlink w tmp_path then (False, s2\<lparr>calls := calls s2 @ tr\<rparr>)
                       else
                         (let s3 = s2\<lparr>calls := calls s2 @ tr,
                                      files := files s2 - {tmp_path}\<rparr> in
                          case result of
                            None \<Rightarrow> (False, s3)
                          | Some returncode \<Rightarrow> (returncode = 0, s3))))))"

section \<open>\<^verbatim>\<open>KokoroTTSServer.run\<close>\<close>

definition print_flush :: "string \<Rightarrow> state \<Rightarrow> state" where
  "print_flush t s = s\<lparr>stdout := stdout s @ [t]\<rparr>"

text \<open>
  One pass through the body of the loop for a line that \<^verbatim>\<open>readline\<close> returned. The
  boolean tells whether the loop goes on (\<open>False\<close> after \<^verbatim>\<open>break\<close>). A
  \<^verbatim>\<open>ValueError\<close> of \<^verbatim>\<open>float\<close> is raised before the assignment to
  \<^verbatim>\<open>self.speed\<close> and is caught by the handler of the loop body, which prints
  \<^verbatim>\<open>ERROR\<close>.
\<close>

definition handle :: "'a world \<Rightarrow> state \<Rightarrow> string \<Rightarrow> state \<times> bool" where
  "handle w s raw =
     (let line = strip raw in
      if line = [] then (s, True)
      else if startswith line ''SPEAK:'' then
        (let text = strip (drop 6 line) in
         (print_flush ''OK'' (snd (speak w s text)), True))
      else if startswith line ''VOICE:'' then
        (let new_voice = strip (drop 6 line) in
         if new_voice \<in> voices w then (print_flush ''OK'' (s\<lparr>voice := new_voice\<rparr>), True)
         else (print_flush ''ERROR'' s, True))
      else if startswith line ''SPEED:'' then
        (case py_float w (strip (drop 6 line)) of
           Some v \<Rightarrow> (print_flush ''OK'' (s\<lparr>speed := v\<rparr>), True)
         | None \<Rightarrow> (print_flush ''ERROR'' s, True))
      else if line = ''QUIT'' then (s, False)
      else (print_flush ''OK'' (snd (speak w s line)), True))"

text \<open>
  The loop. The input is the list of lines that \<^verbatim>\<open>readline\<close> returns, each with the
  collaborators as they answer while it is handled; the end of the list is the end of the
  input, and so is an empty line (\<^verbatim>\<open>readline\<close> returns the empty string only there).
  The signal handlers, which end the process from wherever it is, are not modelled; the
  field \<open>running\<close> is what the loop tests.
\<close>

fun run :: "state \<Rightarrow> (string \<times> 'a world) list \<Rightarrow> state" where
  "run s [] = s"
| "run s ((raw, w) # rest) =
     (if \<not> running s then s
      else if raw = [] then s
      else (case handle w s raw of (s', continue) \<Rightarrow> if continue then run s' rest else s'))"

section \<open>Sample collaborators\<close>

text \<open>
  Concrete collaborators on which the model is evaluated below. \<open>sample_float\<close> answers
  as \<^verbatim>\<open>float\<close> does on the strings \<^verbatim>\<open>2.5\<close>, \<^verbatim>\<open>-1\<close>, \<^verbatim>\<open>0\<close>, \<^verbatim>\<open>nan\<close>,
  \<^verbatim>\<open>inf\<close> and \<^verbatim>\<open>abc\<close>, the only ones it is used on. The four families of
  players are: none installed; \<^verbatim>\<open>pw-play\<close> missing, \<^verbatim>\<open>paplay\<close> hanging and
  \<^verbatim>\<open>aplay\<close> working; \<^verbatim>\<open>pw-play\<close> exiting with status 1 and \<^verbatim>\<open>paplay\<close>
  working; \<^verbatim>\<open>pw-play\<close> on the search path without the permission to execute it, so
  that \<^verbatim>\<open>subprocess.run\<close> raises \<^verbatim>\<open>PermissionError\<close>.
\<close>

definition sample_float :: "string \<Rightarrow> pyfloat option" where
  "sample_float t =
     (if t = ''2.5'' then Some (Finite (5 / 2))
      else if t = ''-1'' then Some (Finite (- 1))
      else if t = ''0'' then Some (Finite 0)
      else if t = ''nan'' then Some NaN
      else if t = ''inf'' then Some PosInf
      else None)"

definition players_missing :: "string list \<Rightarrow> nat \<Rightarrow> proc_outcome" where
  "players_missing cmd timeout = FileNotFoundError"

definition only_aplay :: "string list \<Rightarrow> nat \<Rightarrow> proc_outcome" where
  "only_aplay cmd timeout =
     (if hd cmd = ''aplay'' then Exited 0
      else if hd cmd = ''paplay'' then TimeoutExpired
      else FileNotFoundError)"

definition pw_play_fails :: "string list \<Rightarrow> nat \<Rightarrow> proc_outcome" where
  "pw_play_fails cmd timeout =
     (if hd cmd = ''pw-play'' then Exited 1
      else if hd cmd = ''paplay'' then Exited 0
      else FileNotFoundError)"

definition pw_play_denied :: "string list \<Rightarrow> nat \<Rightarrow> proc_outcome" where
  "pw_play_denied cmd timeout = (if hd cmd = ''pw-play'' then OtherError else Exited 0)"

definition sample_world :: "(string list \<Rightarrow> nat \<Rightarrow> proc_outcome) \<Rightarrow> unit world" where
  "sample_world players =
     \<lparr>voices = {''af_bella'', ''af_sky''},
      py_float = sample_float,
      create = (\<lambda>text voice speed. Some ()),
      mktemp = Some ''/tmp/tmpq1.wav'',
      sf_write = (\<lambda>path samples. True),
      subprocess_run = players,
      os_unlink = (\<lambda>path. True)\<rparr>"


section \<open>Trimming\<close>

lemma startswith_iff: "startswith s p \<longleftrightarrow> (\<exists>rest. s = p @ rest)"
  unfolding startswith_def by (metis append_eq_conv_conj append_take_drop_id)

lemma not_isspace_dropWhile: "s \<noteq> [] \<Longrightarrow> \<not> isspace (hd s) \<Longrightarrow> dropWhile isspace s = s"
  by (cases s) simp_all

text \<open>A prefix that neither starts nor ends with a space survives trimming.\<close>

lemma strip_prefixed:
  assumes "p \<noteq> []" "\<not> isspace (hd p)" "\<not> isspace (last p)"
  shows "strip (p @ rest) = p @ rev (dropWhile isspace (rev rest))"
proof -
  have a: "dropWhile isspace (p @ rest) = p @ rest"
    using assms by (intro not_isspace_dropWhile) simp_all
  have b: "dropWhile isspace (rev p) = rev p"
    using assms by (intro not_isspace_dropWhile) (simp_all add: hd_rev)
  show ?thesis
    unfolding strip_def a by (simp add: dropWhile_append b)
qed

lemma trim_commute:
  "dropWhile P (rev (dropWhile P (rev r))) = rev (dropWhile P (rev (dropWhile P r)))"
proof (induction r)
  case Nil
  show ?case by simp
next
  case (Cons a r)
  show ?case
  proof (cases "P a")
    case True
    then show ?thesis
      using Cons.IH by (auto simp: dropWhile_append dest: set_dropWhileD)
  next
    case False
    then show ?thesis
      by (simp add: dropWhile_append)
  qed
qed

lemma strip_rtrim: "strip (rev (dropWhile isspace (rev r))) = strip r"
  unfolding strip_def by (simp add: trim_commute)

text \<open>
  For a raw line that starts with one of the six-character prefixes, the trimmed line
  starts with it too, and the argument the handler extracts is the trimmed rest.
\<close>

lemma prefixed_line:
  assumes "raw = p @ rest \<or> strip raw = p @ rest"
    and "p \<noteq> []" "\<not> isspace (hd p)" "\<not> isspace (last p)"
  shows "\<exists>rest'. strip raw = p @ rest' \<and> strip rest' = strip rest"
  using assms(1)
proof
  assume "raw = p @ rest"
  then have "strip raw = p @ rev (dropWhile isspace (rev rest))"
    by (simp add: strip_prefixed [OF assms(2-4)])
  then show ?thesis
    using strip_rtrim by blast
next
  assume "strip raw = p @ rest"
  then show ?thesis by blast
qed

section \<open>Frame lemmas\<close>

lemma print_flush_simps [simp]:
  "stdout (print_flush t s) = stdout s @ [t]"
  "voice (print_flush t s) = voice s"
  "speed (print_flush t s) = speed s"
  "running (print_flush t s) = running s"
  "files (print_flush t s) = files s"
  "calls (print_flush t s) = calls s"
  by (simp_all add: print_flush_def)

text \<open>\<^verbatim>\<open>speak\<close> prints nothing and leaves the fields of the server object alone.\<close>

lemma speak_stdout [simp]: "stdout (snd (speak w s t)) = stdout s"
  by (simp add: speak_def Let_def split: option.splits prod.splits)

lemma speak_voice [simp]: "voice (snd (speak w s t)) = voice s"
  by (simp add: speak_def Let_def split: option.splits prod.splits)

lemma speak_speed [simp]: "speed (snd (speak w s t)) = speed s"
  by (simp add: speak_def Let_def split: option.splits prod.splits)

lemma speak_running [simp]: "running (snd (speak w s t)) = running s"
  by (simp add: speak_def Let_def split: option.splits prod.splits)

text \<open>Its first call is to the synthesizer, with the text it was given.\<close>

lemma speak_calls:
  "\<exists>tr. calls (snd (speak w s t)) = calls s @ Create t (voice s) (speed s) # tr"
  by (simp add: speak_def Let_def split: option.splits prod.splits)

lemma speak_calls_players:
  assumes "create w t (voice s) (speed s) = Some a" "mktemp w = Some p" "sf_write w p a"
  shows "calls (snd (speak w s t)) =
           calls s @ Create t (voice s) (speed s) #
             snd (try_players (subprocess_run w) (audio_players p) None)"
  using assms by (simp add: speak_def Let_def split: option.splits prod.splits)

section \<open>The loop over the players\<close>

lemma try_players_trace:
  "snd (try_players f (audio_players p) None) =
     (if f [''pw-play'', p] 10 = Exited 0 \<or> f [''pw-play'', p] 10 = OtherError
      then [Run [''pw-play'', p] 10]
      else if f [''paplay'', p] 10 = Exited 0 \<or> f [''paplay'', p] 10 = OtherError
      then [Run [''pw-play'', p] 10, Run [''paplay'', p] 10]
      else [Run [''pw-play'', p] 10, Run [''paplay'', p] 10, Run [''aplay'', ''-q'', p] 10])"
  by (simp add: audio_players_def split: proc_outcome.splits prod.splits)

text \<open>The loop is left by an exception exactly when a player that is run raises one.\<close>

lemma try_players_raises:
  "fst (try_players f ps result) = None \<Longrightarrow> \<exists>cmd \<in> fst ` set ps. f cmd 10 = OtherError"
  by (induction f ps result rule: try_players.induct)
     (auto split: proc_outcome.splits prod.splits if_splits)

text \<open>Its result is a zero return code only when a player exited with status zero.\<close>

lemma try_players_zero:
  "fst (try_players f ps result) = Some (Some 0) \<Longrightarrow>
     result = Some 0 \<or> (\<exists>cmd \<in> fst ` set ps. f cmd 10 = Exited 0)"
  by (induction f ps result rule: try_players.induct)
     (auto split: proc_outcome.splits prod.splits if_splits)

text \<open>
  When the file is written, no player raises anything but the two exceptions that the
  loop catches and \<^verbatim>\<open>os.unlink\<close> returns, the temporary file is gone when
  \<^verbatim>\<open>speak\<close> returns.
\<close>

lemma speak_unlinks:
  assumes "create w t (voice s) (speed s) = Some a" "mktemp w = Some p" "sf_write w p a"
    and "\<forall>cmd \<in> fst ` set (audio_players p). subprocess_run w cmd 10 \<noteq> OtherError"
    and "os_unlink w p"
  shows "p \<notin> files (snd (speak w s t))"
proof -
  obtain r tr where tp: "try_players (subprocess_run w) (audio_players p) None = (r, tr)"
    by (cases "try_players (subprocess_run w) (audio_players p) None")
  have "r \<noteq> None"
    using try_players_raises [of "subprocess_run w" "audio_players p" None] assms(4) tp
    by auto
  then obtain result where "r = Some result" by blast
  with tp assms(1-3,5) show ?thesis
    by (simp add: speak_def Let_def split: option.splits)
qed

text \<open>\<^verbatim>\<open>speak\<close> returns \<^verbatim>\<open>True\<close> only when some player exited with status zero.\<close>

lemma speak_true:
  assumes "fst (speak w s t)"
  shows "\<exists>p. mktemp w = Some p \<and>
             (\<exists>cmd \<in> fst ` set (audio_players p). subprocess_run w cmd 10 = Exited 0)"
proof -
  from assms obtain p where p: "mktemp w = Some p"
    and r: "fst (try_players (subprocess_run w) (audio_players p) None) = Some (Some 0)"
    by (auto simp: speak_def Let_def split: option.splits prod.splits if_splits)
  from try_players_zero [OF r] p show ?thesis by simp
qed

section \<open>One line, and the loop\<close>

lemma handle_quit: "strip raw = ''QUIT'' \<Longrightarrow> handle w s raw = (s, False)"
  by (simp add: handle_def startswith_def)

lemma handle_voice:
  "voice (fst (handle w s raw)) = voice s \<or> voice (fst (handle w s raw)) \<in> voices w"
  by (simp add: handle_def Let_def split: option.splits)

text \<open>
  The voice after the loop is the voice before it, or a voice that belonged to the known
  set while one of the lines was handled.
\<close>

lemma run_voice:
  "voice (run s xs) = voice s \<or> (\<exists>(raw, w) \<in> set xs. voice (run s xs) \<in> voices w)"
proof (induction xs arbitrary: s)
  case Nil
  show ?case by simp
next
  case (Cons x xs)
  obtain raw w where x: "x = (raw, w)" by (cases x)
  obtain s' c where h: "handle w s raw = (s', c)" by (cases "handle w s raw")
  have hv: "voice s' = voice s \<or> voice s' \<in> voices w"
    using handle_voice [of w s raw] by (simp add: h)
  show ?case
  proof (cases "running s \<and> raw \<noteq> [] \<and> c")
    case False
    then show ?thesis using hv by (auto simp: x h)
  next
    case True
    then have r: "run s (x # xs) = run s' xs" by (simp add: x h)
    from Cons.IH [of s'] show ?thesis
    proof
      assume "voice (run s' xs) = voice s'"
      with hv r show ?thesis by (auto simp: x)
    next
      assume "\<exists>(raw, w) \<in> set xs. voice (run s' xs) \<in> voices w"
      with r show ?thesis by auto
    qed
  qed
qed

section \<open>The response to a speak request\<close>

text \<open>
  Claim C1. A line that starts with \<^verbatim>\<open>SPEAK:\<close>, and a non-empty line that reaches
  the default branch, is answered with \<^verbatim>\<open>OK\<close>, whatever the synthesizer and the
  players do: \<^verbatim>\<open>speak\<close> turns every failure into the value \<^verbatim>\<open>False\<close>, which
  the loop does not look at.
\<close>

theorem speak_response_always_ok:
  assumes "startswith raw ''SPEAK:'' \<or> startswith (strip raw) ''SPEAK:'' \<or>
           (strip raw \<noteq> [] \<and> \<not> startswith (strip raw) ''VOICE:'' \<and>
            \<not> startswith (strip raw) ''SPEED:'' \<and> strip raw \<noteq> ''QUIT'')"
  shows "stdout (fst (handle w s raw)) = stdout s @ [''OK''] \<and> snd (handle w s raw)"
proof -
  have sp: "startswith (strip raw) ''SPEAK:''" if "startswith raw ''SPEAK:''"
  proof -
    from that obtain rest where "raw = ''SPEAK:'' @ rest"
      unfolding startswith_iff ..
    then have "\<exists>rest'. strip raw = ''SPEAK:'' @ rest' \<and> strip rest' = strip rest"
      by (intro prefixed_line) (simp_all add: isspace_def)
    then show ?thesis
      unfolding startswith_iff by blast
  qed
  have ne: "strip raw \<noteq> []" if "startswith (strip raw) ''SPEAK:''"
    using that by (auto simp: startswith_def)
  from assms sp ne show ?thesis
    by (auto simp: handle_def Let_def)
qed

theorem speak_response_always_ok_witness:
  "startswith ''SPEAK:hello\<newline>'' ''SPEAK:'' \<and>
   \<not> fst (speak (sample_world players_missing) (init {}) ''hello'') \<and>
   stdout (fst (handle (sample_world players_missing) (init {}) ''SPEAK:hello\<newline>'')) = [''OK'']"
proof -
  have h: "startswith ''SPEAK:hello\<newline>'' ''SPEAK:''"
    by (simp add: startswith_def)
  have f: "\<not> fst (speak (sample_world players_missing) (init {}) ''hello'')"
    by (simp add: speak_def sample_world_def players_missing_def audio_players_def)
  show ?thesis
    using speak_response_always_ok [of "''SPEAK:hello\<newline>''" "sample_world players_missing" "init {}"] h f
    by (simp add: init_def)
qed

section \<open>Changing the voice\<close>

text \<open>
  Claim C2. For a line \<^verbatim>\<open>VOICE:<name>\<close>, with the name trimmed: when the name is a
  known voice it becomes the voice of the session and the answer is \<^verbatim>\<open>OK\<close>;
  otherwise the voice is what it was and the answer is \<^verbatim>\<open>ERROR\<close>.
\<close>

theorem voice_command:
  assumes "raw = ''VOICE:'' @ rest \<or> strip raw = ''VOICE:'' @ rest" and "name = strip rest"
  shows "(name \<in> voices w \<longrightarrow>
            voice (fst (handle w s raw)) = name \<and>
            stdout (fst (handle w s raw)) = stdout s @ [''OK'']) \<and>
         (name \<notin> voices w \<longrightarrow>
            voice (fst (handle w s raw)) = voice s \<and>
            stdout (fst (handle w s raw)) = stdout s @ [''ERROR''])"
proof -
  from assms(1) have "\<exists>rest'. strip raw = ''VOICE:'' @ rest' \<and> strip rest' = strip rest"
    by (rule prefixed_line) (simp_all add: isspace_def)
  then obtain rest' where "strip raw = ''VOICE:'' @ rest'" "strip rest' = strip rest"
    by blast
  with assms(2) show ?thesis
    by (simp add: handle_def Let_def startswith_def)
qed

theorem voice_command_witness:
  "(let s = fst (handle (sample_world players_missing) (init {}) ''VOICE:af_sky\<newline>'')
    in voice s = ''af_sky'' \<and> stdout s = [''OK'']) \<and>
   (let s = fst (handle (sample_world players_missing) (init {}) ''VOICE: xx\<newline>'')
    in voice s = ''af_bella'' \<and> stdout s = [''ERROR''])"
proof -
  have a: "''af_sky'' = strip ''af_sky\<newline>''" "''xx'' = strip '' xx\<newline>''"
    by (simp_all add: strip_def isspace_def)
  have k: "''af_sky'' \<in> voices (sample_world players_missing)"
    "''xx'' \<notin> voices (sample_world players_missing)"
    by (simp_all add: sample_world_def)
  have i: "voice (init {}) = ''af_bella''" "stdout (init {}) = []"
    by (simp_all add: init_def default_voice_def)
  show ?thesis
    using voice_command [of "''VOICE:af_sky\<newline>''" "''af_sky\<newline>''" "''af_sky''"
        "sample_world players_missing" "init {}", OF _ a(1)]
      voice_command [of "''VOICE: xx\<newline>''" "'' xx\<newline>''" "''xx''"
        "sample_world players_missing" "init {}", OF _ a(2)] k i
    by (simp add: Let_def)
qed

section \<open>Changing the speed\<close>

text \<open>
  Claim C3. For a line \<^verbatim>\<open>SPEED:<token>\<close>: when \<^verbatim>\<open>float\<close> accepts the trimmed
  token, its value, whatever it is, becomes the speed of the session and the answer is
  \<^verbatim>\<open>OK\<close>; when \<^verbatim>\<open>float\<close> raises, the speed is what it was and the answer is
  \<^verbatim>\<open>ERROR\<close>.
\<close>

theorem speed_command:
  assumes "raw = ''SPEED:'' @ token \<or> strip raw = ''SPEED:'' @ token"
  shows "(py_float w (strip token) = Some v \<longrightarrow>
            speed (fst (handle w s raw)) = v \<and>
            stdout (fst (handle w s raw)) = stdout s @ [''OK'']) \<and>
         (py_float w (strip token) = None \<longrightarrow>
            speed (fst (handle w s raw)) = speed s \<and>
            stdout (fst (handle w s raw)) = stdout s @ [''ERROR''])"
proof -
  from assms have "\<exists>rest'. strip raw = ''SPEED:'' @ rest' \<and> strip rest' = strip token"
    by (rule prefixed_line) (simp_all add: isspace_def)
  then obtain rest' where "strip raw = ''SPEED:'' @ rest'" "strip rest' = strip token"
    by blast
  then show ?thesis
    by (simp add: handle_def Let_def startswith_def)
qed

theorem speed_command_witness:
  "(let s = fst (handle (sample_world players_missing) (init {}) ''SPEED:2.5\<newline>'')
    in speed s = Finite (5 / 2) \<and> stdout s = [''OK'']) \<and>
   (let s = fst (handle (sample_world players_missing) (init {}) ''SPEED:nan\<newline>'')
    in speed s = NaN \<and> stdout s = [''OK'']) \<and>
   (let s = fst (handle (sample_world players_missing) (init {}) ''SPEED:-1\<newline>'')
    in speed s = Finite (- 1) \<and> stdout s = [''OK'']) \<and>
   (let s = fst (handle (sample_world players_missing) (init {}) ''SPEED:0\<newline>'')
    in speed s = Finite 0 \<and> stdout s = [''OK'']) \<and>
   (let s = fst (handle (sample_world players_missing) (init {}) ''SPEED:inf\<newline>'')
    in speed s = PosInf \<and> stdout s = [''OK'']) \<and>
   (let s = fst (handle (sample_world players_missing) (init {}) ''SPEED:abc\<newline>'')
    in speed s = Finite 1 \<and> stdout s = [''ERROR''])"
proof -
  have a: "strip ''2.5\<newline>'' = ''2.5''" "strip ''nan\<newline>'' = ''nan''"
    "strip ''-1\<newline>'' = ''-1''" "strip ''abc\<newline>'' = ''abc''"
    "strip ''0\<newline>'' = ''0''" "strip ''inf\<newline>'' = ''inf''"
    by (simp_all add: strip_def isspace_def)
  have f: "py_float (sample_world players_missing) ''2.5'' = Some (Finite (5 / 2))"
    "py_float (sample_world players_missing) ''nan'' = Some NaN"
    "py_float (sample_world players_missing) ''-1'' = Some (Finite (- 1))"
    "py_float (sample_world players_missing) ''abc'' = None"
    "py_float (sample_world players_missing) ''0'' = Some (Finite 0)"
    "py_float (sample_world players_missing) ''inf'' = Some PosInf"
    by (simp_all add: sample_world_def sample_float_def)
  have i: "speed (init {}) = Finite 1" "stdout (init {}) = []"
    by (simp_all add: init_def)
  show ?thesis
    using speed_command [of "''SPEED:2.5\<newline>''" "''2.5\<newline>''"
        "sample_world players_missing" "Finite (5 / 2)" "init {}"]
      speed_command [of "''SPEED:nan\<newline>''" "''nan\<newline>''"
        "sample_world players_missing" NaN "init {}"]
      speed_command [of "''SPEED:-1\<newline>''" "''-1\<newline>''"
        "sample_world players_missing" "Finite (- 1)" "init {}"]
      speed_command [of "''SPEED:0\<newline>''" "''0\<newline>''"
        "sample_world players_missing" "Finite 0" "init {}"]
      speed_command [of "''SPEED:inf\<newline>''" "''inf\<newline>''"
        "sample_world players_missing" PosInf "init {}"]
      speed_command [of "''SPEED:abc\<newline>''" "''abc\<newline>''"
        "sample_world players_missing" NaN "init {}"]
    by (simp add: Let_def a f i)
qed


section \<open>The temporary file\<close>

text \<open>
  Claim C4. The claim is that every call deletes its temporary file before it returns.
  Here \<^verbatim>\<open>pw-play\<close> is on the search path but may not be executed, so that
  \<^verbatim>\<open>subprocess.run\<close> raises \<^verbatim>\<open>PermissionError\<close>: the loop is left through the
  outer handler, \<^verbatim>\<open>os.unlink\<close> is not reached, \<^verbatim>\<open>speak\<close> returns
  \<^verbatim>\<open>False\<close> and the file is still there. (Lemma \<open>speak_unlinks\<close> is the case in
  which the file is deleted, lemma \<open>speak_true\<close> the part of the claim about the result.)
\<close>

theorem temp_file_left_behind:
  "\<not> fst (speak (sample_world pw_play_denied) (init {}) ''hello'') \<and>
   ''/tmp/tmpq1.wav'' \<in> files (snd (speak (sample_world pw_play_denied) (init {}) ''hello'')) \<and>
   calls (snd (speak (sample_world pw_play_denied) (init {}) ''hello'')) =
     [Create ''hello'' ''af_bella'' (Finite 1), Run [''pw-play'', ''/tmp/tmpq1.wav''] 10]"
  by (simp add: speak_def sample_world_def pw_play_denied_def audio_players_def init_def
      default_voice_def)

section \<open>The voice of the session\<close>

text \<open>
  Claim C5, as amended. After any sequence of lines, the voice of the session is the fixed
  default \<^verbatim>\<open>af_bella\<close>, which is assigned unchecked, or a voice that was in the
  known set when the line that assigned it was handled.
\<close>

theorem voice_default_or_known:
  "voice (run (init fs) xs) = default_voice \<or>
   (\<exists>(raw, w) \<in> set xs. voice (run (init fs) xs) \<in> voices w)"
  using run_voice [of "init fs" xs] by (simp add: init_def)

theorem voice_default_or_known_witness:
  "voice (run (init {}) [(''VOICE:af_sky\<newline>'', sample_world players_missing)]) = ''af_sky'' \<and>
   ''af_sky'' \<in> voices (sample_world players_missing)"
proof -
  have "voice (run (init {}) [(''VOICE:af_sky\<newline>'', sample_world players_missing)]) = ''af_sky''"
    by (simp add: handle_def strip_def isspace_def startswith_def sample_world_def init_def
        print_flush_def)
  then show ?thesis
    using voice_default_or_known [of "{}" "[(''VOICE:af_sky\<newline>'', sample_world players_missing)]"]
    by (simp add: default_voice_def)
qed

text \<open>
  The claim as stated fails where the voice file has no \<^verbatim>\<open>af_bella\<close>: the session
  starts with that voice, and keeps it when an unknown voice is asked for.
\<close>

theorem default_voice_unchecked:
  "voice (run (init {})
       [(''VOICE:zz\<newline>'', (sample_world players_missing)\<lparr>voices := {''am_adam''}\<rparr>)])
     \<notin> voices ((sample_world players_missing)\<lparr>voices := {''am_adam''}\<rparr>)"
  by (simp add: handle_def strip_def isspace_def startswith_def sample_world_def init_def
      print_flush_def default_voice_def)

section \<open>Leaving the loop\<close>

text \<open>
  Claim C6. When a line of the input is \<^verbatim>\<open>QUIT\<close> after trimming, the loop ends in
  the state, and with the output, that it has after the lines before it: nothing is
  printed for the line, and no later line is handled.
\<close>

theorem quit_ends_loop:
  assumes "strip q = ''QUIT''"
  shows "run s (pre @ (q, w) # post) = run s pre"
proof (induction pre arbitrary: s)
  case Nil
  from assms have "q \<noteq> []" by (auto simp: strip_def)
  with assms show ?case by (simp add: handle_quit)
next
  case (Cons x pre)
  obtain raw w' where x: "x = (raw, w')" by (cases x)
  show ?case
    by (simp add: x Cons.IH split: prod.splits)
qed

theorem quit_ends_loop_witness:
  "strip ''QUIT\<newline>'' = ''QUIT'' \<and>
   run (init {})
     ([(''VOICE:af_sky\<newline>'', sample_world players_missing)] @
      (''QUIT\<newline>'', sample_world players_missing) #
      [(''SPEED:2.5\<newline>'', sample_world players_missing)]) =
   (init {})\<lparr>voice := ''af_sky'', stdout := [''OK'']\<rparr>"
proof -
  have q: "strip ''QUIT\<newline>'' = ''QUIT''"
    by (simp add: strip_def isspace_def)
  have r: "run (init {}) [(''VOICE:af_sky\<newline>'', sample_world players_missing)] =
           (init {})\<lparr>voice := ''af_sky'', stdout := [''OK'']\<rparr>"
    by (simp add: handle_def strip_def isspace_def startswith_def sample_world_def init_def
        print_flush_def)
  show ?thesis
    using quit_ends_loop [OF q, of "init {}" "[(''VOICE:af_sky\<newline>'', sample_world players_missing)]"
        "sample_world players_missing" "[(''SPEED:2.5\<newline>'', sample_world players_missing)]"] q r
    by simp
qed

section \<open>The order of the players\<close>

text \<open>
  Claim C7. The commands run for one playback are an initial part of \<^verbatim>\<open>pw-play\<close>,
  \<^verbatim>\<open>paplay\<close>, \<^verbatim>\<open>aplay -q\<close>, in this order and each with a timeout of 10 seconds.
  After a player that is missing or that times out the next one is run, and after a
  player that exits with status zero none is. A player that exits with another status
  does not end the loop either: the next one is run. Altogether the loop ends at the first
  player that exits with status zero (or raises an exception that is not caught), and
  runs all three when there is none. These are the calls that \<^verbatim>\<open>speak\<close> makes once
  the audio file is written.
\<close>

theorem players_in_order:
  "let cands = [[''pw-play'', p], [''paplay'', p], [''aplay'', ''-q'', p]];
       out = (\<lambda>i. subprocess_run w (cands ! i) 10);
       tr = snd (try_players (subprocess_run w) (audio_players p) None)
   in (\<exists>n. 0 < n \<and> n \<le> 3 \<and> tr = map (\<lambda>c. Run c 10) (take n cands)) \<and>
      (\<forall>i. Suc i < 3 \<and> i < length tr \<and> (out i = FileNotFoundError \<or> out i = TimeoutExpired)
            \<longrightarrow> Suc i < length tr) \<and>
      (\<forall>i. i < length tr \<and> out i = Exited 0 \<longrightarrow> length tr = Suc i) \<and>
      (\<forall>i rc. Suc i < 3 \<and> i < length tr \<and> out i = Exited rc \<and> rc \<noteq> 0
            \<longrightarrow> Suc i < length tr) \<and>
      tr = (if out 0 = Exited 0 \<or> out 0 = OtherError then map (\<lambda>c. Run c 10) (take 1 cands)
            else if out 1 = Exited 0 \<or> out 1 = OtherError then map (\<lambda>c. Run c 10) (take 2 cands)
            else map (\<lambda>c. Run c 10) cands) \<and>
      (create w t (voice s) (speed s) = Some a \<and> mktemp w = Some p \<and> sf_write w p a
            \<longrightarrow> calls (snd (speak w s t)) = calls s @ Create t (voice s) (speed s) # tr)"
proof -
  let ?cands = "[[''pw-play'', p], [''paplay'', p], [''aplay'', ''-q'', p]]"
  let ?tr = "snd (try_players (subprocess_run w) (audio_players p) None)"
  have 1: "\<exists>n. 0 < n \<and> n \<le> 3 \<and> ?tr = map (\<lambda>c. Run c 10) (take n ?cands)"
  proof -
    have "?tr = map (\<lambda>c. Run c 10) (take 1 ?cands) \<or> ?tr = map (\<lambda>c. Run c 10) (take 2 ?cands)
          \<or> ?tr = map (\<lambda>c. Run c 10) (take 3 ?cands)"
      by (simp add: try_players_trace numeral_2_eq_2)
    moreover have "(0::nat) < 1 \<and> (1::nat) \<le> 3" "(0::nat) < 2 \<and> (2::nat) \<le> 3"
      "(0::nat) < 3 \<and> (3::nat) \<le> 3"
      by simp_all
    ultimately show ?thesis by blast
  qed
  have 2: "Suc i < 3 \<and> i < length ?tr \<and>
             (subprocess_run w (?cands ! i) 10 = FileNotFoundError \<or>
              subprocess_run w (?cands ! i) 10 = TimeoutExpired) \<longrightarrow> Suc i < length ?tr" for i
  proof -
    consider "i = 0" | "i = 1" | "2 \<le> i" by linarith
    then show ?thesis
      by cases (auto simp: try_players_trace)
  qed
  have 3: "i < length ?tr \<and> subprocess_run w (?cands ! i) 10 = Exited 0 \<longrightarrow> length ?tr = Suc i"
    for i
  proof -
    consider "i = 0" | "i = 1" | "i = 2" | "3 \<le> i" by linarith
    then show ?thesis
      by cases (auto simp: try_players_trace)
  qed
  have 4: "Suc i < 3 \<and> i < length ?tr \<and> subprocess_run w (?cands ! i) 10 = Exited rc \<and> rc \<noteq> 0
             \<longrightarrow> Suc i < length ?tr" for i rc
  proof -
    consider "i = 0" | "i = 1" | "2 \<le> i" by linarith
    then show ?thesis
      by cases (auto simp: try_players_trace)
  qed
  have 5: "?tr =
      (if subprocess_run w (?cands ! 0) 10 = Exited 0 \<or> subprocess_run w (?cands ! 0) 10 = OtherError
       then map (\<lambda>c. Run c 10) (take 1 ?cands)
       else if subprocess_run w (?cands ! 1) 10 = Exited 0 \<or>
               subprocess_run w (?cands ! 1) 10 = OtherError
       then map (\<lambda>c. Run c 10) (take 2 ?cands)
       else map (\<lambda>c. Run c 10) ?cands)"
    by (simp add: try_players_trace numeral_2_eq_2)
  have 6: "create w t (voice s) (speed s) = Some a \<and> mktemp w = Some p \<and> sf_write w p a
             \<longrightarrow> calls (snd (speak w s t)) = calls s @ Create t (voice s) (speed s) # ?tr"
    using speak_calls_players [of w t s a p] by blast
  show ?thesis
    unfolding Let_def
    by (intro conjI allI) (rule 1, rule 2, rule 3, rule 4, rule 5, rule 6)
qed

theorem players_in_order_witness:
  "subprocess_run (sample_world only_aplay) [''pw-play'', ''/tmp/tmpq1.wav''] 10 = FileNotFoundError \<and>
   subprocess_run (sample_world only_aplay) [''paplay'', ''/tmp/tmpq1.wav''] 10 = TimeoutExpired \<and>
   subprocess_run (sample_world only_aplay) [''aplay'', ''-q'', ''/tmp/tmpq1.wav''] 10 = Exited 0 \<and>
   calls (snd (speak (sample_world only_aplay) (init {}) ''hello'')) =
     [Create ''hello'' ''af_bella'' (Finite 1),
      Run [''pw-play'', ''/tmp/tmpq1.wav''] 10,
      Run [''paplay'', ''/tmp/tmpq1.wav''] 10,
      Run [''aplay'', ''-q'', ''/tmp/tmpq1.wav''] 10] \<and>
   fst (speak (sample_world only_aplay) (init {}) ''hello'') \<and>
   subprocess_run (sample_world pw_play_fails) [''pw-play'', ''/tmp/tmpq1.wav''] 10 = Exited 1 \<and>
   subprocess_run (sample_world pw_play_fails) [''paplay'', ''/tmp/tmpq1.wav''] 10 = Exited 0 \<and>
   calls (snd (speak (sample_world pw_play_fails) (init {}) ''hello'')) =
     [Create ''hello'' ''af_bella'' (Finite 1),
      Run [''pw-play'', ''/tmp/tmpq1.wav''] 10,
      Run [''paplay'', ''/tmp/tmpq1.wav''] 10] \<and>
   fst (speak (sample_world pw_play_fails) (init {}) ''hello'')"
proof -
  have o': "subprocess_run (sample_world pw_play_fails) [''pw-play'', ''/tmp/tmpq1.wav''] 10 = Exited 1"
    "subprocess_run (sample_world pw_play_fails) [''paplay'', ''/tmp/tmpq1.wav''] 10 = Exited 0"
    by (simp_all add: sample_world_def pw_play_fails_def)
  have c': "create (sample_world pw_play_fails) ''hello'' (voice (init {})) (speed (init {})) = Some ()"
    "mktemp (sample_world pw_play_fails) = Some ''/tmp/tmpq1.wav''"
    "sf_write (sample_world pw_play_fails) ''/tmp/tmpq1.wav'' ()"
    by (simp_all add: sample_world_def)
  have t': "fst (speak (sample_world pw_play_fails) (init {}) ''hello'')"
    by (simp add: speak_def sample_world_def pw_play_fails_def audio_players_def)
  from players_in_order [of "''/tmp/tmpq1.wav''" "sample_world pw_play_fails" "''hello''" "init {}" "()"] c'
  have k': "calls (snd (speak (sample_world pw_play_fails) (init {}) ''hello'')) =
          calls (init {}) @ Create ''hello'' (voice (init {})) (speed (init {})) #
            snd (try_players (subprocess_run (sample_world pw_play_fails))
                   (audio_players ''/tmp/tmpq1.wav'') None)"
    unfolding Let_def by blast
  have o: "subprocess_run (sample_world only_aplay) [''pw-play'', ''/tmp/tmpq1.wav''] 10 = FileNotFoundError"
    "subprocess_run (sample_world only_aplay) [''paplay'', ''/tmp/tmpq1.wav''] 10 = TimeoutExpired"
    "subprocess_run (sample_world only_aplay) [''aplay'', ''-q'', ''/tmp/tmpq1.wav''] 10 = Exited 0"
    by (simp_all add: sample_world_def only_aplay_def)
  have c: "create (sample_world only_aplay) ''hello'' (voice (init {})) (speed (init {})) = Some ()"
    "mktemp (sample_world only_aplay) = Some ''/tmp/tmpq1.wav''"
    "sf_write (sample_world only_aplay) ''/tmp/tmpq1.wav'' ()"
    by (simp_all add: sample_world_def)
  have i: "calls (init {}) = []" "voice (init {}) = ''af_bella''" "speed (init {}) = Finite 1"
    by (simp_all add: init_def default_voice_def)
  have t: "fst (speak (sample_world only_aplay) (init {}) ''hello'')"
    by (simp add: speak_def sample_world_def only_aplay_def audio_players_def)
  from players_in_order [of "''/tmp/tmpq1.wav''" "sample_world only_aplay" "''hello''" "init {}" "()"] c
  have "calls (snd (speak (sample_world only_aplay) (init {}) ''hello'')) =
          calls (init {}) @ Create ''hello'' (voice (init {})) (speed (init {})) #
            snd (try_players (subprocess_run (sample_world only_aplay))
                   (audio_players ''/tmp/tmpq1.wav'') None)"
    unfolding Let_def by blast
  then show ?thesis
    using o t o' t' k' by (simp add: i try_players_trace)
qed

section \<open>Dispatch\<close>

text \<open>
  Claim C8. Dispatch compares characters exactly: a non-empty trimmed line that does not
  start with \<^verbatim>\<open>SPEAK:\<close>, \<^verbatim>\<open>VOICE:\<close> or \<^verbatim>\<open>SPEED:\<close> and is not
  \<^verbatim>\<open>QUIT\<close> is spoken as it is and answered with \<^verbatim>\<open>OK\<close>. So the line
  \<^verbatim>\<open>speak:hello\<close> asks the synthesizer for the text \<^verbatim>\<open>speak:hello\<close>, where
  \<^verbatim>\<open>SPEAK:hello\<close> asks it for \<^verbatim>\<open>hello\<close>.
\<close>

theorem dispatch_case_sensitive:
  "(strip raw \<noteq> [] \<and> \<not> startswith (strip raw) ''SPEAK:'' \<and>
    \<not> startswith (strip raw) ''VOICE:'' \<and> \<not> startswith (strip raw) ''SPEED:'' \<and>
    strip raw \<noteq> ''QUIT''
      \<longrightarrow> handle w s raw = (print_flush ''OK'' (snd (speak w s (strip raw))), True)) \<and>
   handle w s ''speak:hello'' = (print_flush ''OK'' (snd (speak w s ''speak:hello'')), True) \<and>
   (\<exists>tr. calls (fst (handle w s ''speak:hello'')) =
            calls s @ Create ''speak:hello'' (voice s) (speed s) # tr) \<and>
   stdout (fst (handle w s ''speak:hello'')) = stdout s @ [''OK''] \<and>
   (\<exists>tr. calls (fst (handle w s ''SPEAK:hello'')) =
            calls s @ Create ''hello'' (voice s) (speed s) # tr)"
proof -
  have a: "strip ''speak:hello'' = ''speak:hello''" "strip ''SPEAK:hello'' = ''SPEAK:hello''"
    "strip ''hello'' = ''hello''"
    by (simp_all add: strip_def isspace_def)
  have b: "handle w s ''speak:hello'' = (print_flush ''OK'' (snd (speak w s ''speak:hello'')), True)"
    by (simp add: handle_def a startswith_def)
  have c: "handle w s ''SPEAK:hello'' = (print_flush ''OK'' (snd (speak w s ''hello'')), True)"
    by (simp add: handle_def a startswith_def)
  show ?thesis
    using speak_calls [of w s "''speak:hello''"] speak_calls [of w s "''hello''"]
    by (simp add: b c) (simp add: handle_def)
qed

theorem dispatch_case_sensitive_witness:
  "strip ''Voice:af_sky\<newline>'' = ''Voice:af_sky'' \<and>
   handle (sample_world players_missing) (init {}) ''Voice:af_sky\<newline>'' =
     (print_flush ''OK''
        (snd (speak (sample_world players_missing) (init {}) ''Voice:af_sky'')), True) \<and>
   voice (fst (handle (sample_world players_missing) (init {}) ''Voice:af_sky\<newline>'')) = ''af_bella''"
proof -
  have a: "strip ''Voice:af_sky\<newline>'' = ''Voice:af_sky''"
    by (simp add: strip_def isspace_def)
  have h: "strip ''Voice:af_sky\<newline>'' \<noteq> [] \<and>
           \<not> startswith (strip ''Voice:af_sky\<newline>'') ''SPEAK:'' \<and>
           \<not> startswith (strip ''Voice:af_sky\<newline>'') ''VOICE:'' \<and>
           \<not> startswith (strip ''Voice:af_sky\<newline>'') ''SPEED:'' \<and>
           strip ''Voice:af_sky\<newline>'' \<noteq> ''QUIT''"
    by (simp add: a startswith_def)
  have i: "voice (init {}) = ''af_bella''"
    by (simp add: init_def default_voice_def)
  show ?thesis
    using dispatch_case_sensitive [of "''Voice:af_sky\<newline>''" "sample_world players_missing" "init {}"] h
    by (simp add: a i)
qed

section \<open>Empty lines\<close>

text \<open>
  Claim C9. A line that is empty after trimming leaves the whole state as it is, the
  fields \<open>voice\<close>, \<open>speed\<close> and \<open>running\<close> and the output among it, and the loop goes on.
\<close>

theorem empty_line_ignored:
  assumes "strip raw = []"
  shows "handle w s raw = (s, True)"
  using assms by (simp add: handle_def)

theorem empty_line_ignored_witness:
  "strip '' \<newline>'' = [] \<and>
   handle (sample_world players_missing) (init {}) '' \<newline>'' = (init {}, True)"
proof -
  have e: "strip '' \<newline>'' = []"
    by (simp add: strip_def isspace_def)
  from empty_line_ignored [OF e] e show ?thesis by simp
qed

text \<open>
  Claim C10. The line \<^verbatim>\<open>SPEAK:\<close>, with nothing or only white space after the colon,
  is not an empty line for the loop: \<^verbatim>\<open>speak\<close> is called with the empty string, so
  the synthesizer is asked for the empty text, and one \<^verbatim>\<open>OK\<close> is printed.
\<close>

theorem speak_empty_text:
  assumes "raw = ''SPEAK:'' @ ws" and "\<forall>c \<in> set ws. isspace c"
  shows "handle w s raw = (print_flush ''OK'' (snd (speak w s [])), True) \<and>
         stdout (fst (handle w s raw)) = stdout s @ [''OK''] \<and>
         (\<exists>tr. calls (fst (handle w s raw)) = calls s @ Create [] (voice s) (speed s) # tr)"
proof -
  have "strip (''SPEAK:'' @ ws) = ''SPEAK:'' @ rev (dropWhile isspace (rev ws))"
    by (rule strip_prefixed) (simp_all add: isspace_def)
  with assms have l: "strip raw = ''SPEAK:''" by simp
  have e: "strip [] = []" by (simp add: strip_def)
  have h: "handle w s raw = (print_flush ''OK'' (snd (speak w s [])), True)"
    by (simp add: handle_def l e startswith_def)
  show ?thesis
    using speak_calls [of w s "[]"] by (simp add: h)
qed

theorem speak_empty_text_witness:
  "list_all isspace '' \<newline>'' \<and>
   stdout (fst (handle (sample_world players_missing) (init {}) ''SPEAK: \<newline>'')) = [''OK''] \<and>
   hd (calls (fst (handle (sample_world players_missing) (init {}) ''SPEAK: \<newline>''))) =
     Create [] ''af_bella'' (Finite 1)"
proof -
  have a: "''SPEAK: \<newline>'' = ''SPEAK:'' @ '' \<newline>''" by simp
  have b: "\<forall>c \<in> set '' \<newline>''. isspace c" by (simp add: isspace_def)
  have i: "stdout (init {}) = []" "calls (init {}) = []" "voice (init {}) = ''af_bella''"
    "speed (init {}) = Finite 1"
    by (simp_all add: init_def default_voice_def)
  from speak_empty_text [OF a b, of "sample_world players_missing" "init {}"] b
  show ?thesis by (auto simp: i list_all_iff)
qed

end
